theory Spec2Isabelle
  imports Complex_Main
begin

section \<open>Python values, exceptions and the network\<close>

text \<open>
  The application is \<^verbatim>\<open>weather_app.py\<close>. Its two services turn an HTTP answer into a
  dataclass or \<^verbatim>\<open>None\<close>; a worker thread runs one of two fetch chains and schedules the
  result on the Tk main loop; the window keeps the last reading, the unit preference and the
  one content widget that is packed.

  A dataclass does not check its annotations, so a field holds whatever value the decoded
  JSON had at that key: fields are \<open>pyval\<close>s. Floats are carried as the number they
  denote and never computed with; the one operation the program applies to them,
  \<^verbatim>\<open>format(v, '.0f')\<close>, is a parameter of the model.

  A \<^verbatim>\<open>str\<close> is a sequence of Unicode code points: \<open>str\<close> is a list of numbers, and
  \<open>lit\<close> gives the code points of an ASCII literal of the source.
\<close>

type_synonym str = "nat list"

definition lit :: "char list \<Rightarrow> str" where
  "lit cs = map of_char cs"

datatype exn = RequestException | KeyError | TypeError | AttributeError | ValueError

datatype pyval =
    PNone
  | PBool bool
  | PInt int
  | PFloat real
  | PStr str
  | PList "pyval list"
  | PDict "(str \<times> pyval) list"

type_synonym params = "(str \<times> pyval) list"

text \<open>
  \<^verbatim>\<open>requests.Response\<close>: the status code, and what \<^verbatim>\<open>response.json()\<close> does (the decoded
  value, or the exception it raises: \<open>RequestException\<close> stands for the whole class
  hierarchy below \<^verbatim>\<open>requests.RequestException\<close>, which holds the JSON decoding error of
  current versions of the library; older versions raise a plain \<open>ValueError\<close>).
\<close>

record response =
  status_code :: nat
  json :: "exn + pyval"

text \<open>\<^verbatim>\<open>requests.get(url, params=..., timeout=10)\<close>: \<open>Inl e\<close> when the call raises \<open>e\<close>.\<close>

type_synonym network = "str \<Rightarrow> params \<Rightarrow> exn + response"

text \<open>
  What a task did, in order: each entry to \<^verbatim>\<open>WeatherService.get_weather\<close> and each HTTP
  request sent.
\<close>

datatype call = GetWeather pyval | HttpGet str params

definition API_KEY_SENTINEL :: str where
  "API_KEY_SENTINEL = lit ''YOUR_WEATHERAPI_KEY''"

definition WEATHER_API_URL :: str where
  "WEATHER_API_URL = lit ''http://api.weatherapi.com/v1/current.json''"

definition IPINFO_URL :: str where
  "IPINFO_URL = lit ''https://ipinfo.io/json''"

definition and_then :: "exn + 'a \<Rightarrow> ('a \<Rightarrow> exn + 'b) \<Rightarrow> exn + 'b" where
  "and_then m f = (case m of Inl e \<Rightarrow> Inl e | Inr v \<Rightarrow> f v)"

text \<open>\<^verbatim>\<open>response.raise_for_status()\<close> raises \<^verbatim>\<open>HTTPError\<close> for 4xx and 5xx.\<close>

definition raise_for_status :: "response \<Rightarrow> exn + unit" where
  "raise_for_status r =
     (if 400 \<le> status_code r \<and> status_code r < 600 then Inl RequestException else Inr ())"

text \<open>\<^verbatim>\<open>d[k]\<close> with a string key: \<^verbatim>\<open>KeyError\<close> on a dict without the key,
  \<^verbatim>\<open>TypeError\<close> on every other JSON value.\<close>

fun getitem :: "pyval \<Rightarrow> str \<Rightarrow> exn + pyval" where
  "getitem (PDict kvs) k = (case map_of kvs k of None \<Rightarrow> Inl KeyError | Some v \<Rightarrow> Inr v)"
| "getitem _ k = Inl TypeError"

text \<open>\<^verbatim>\<open>d.get(k, default)\<close>: only a dict has the method.\<close>

fun dict_get :: "pyval \<Rightarrow> str \<Rightarrow> pyval \<Rightarrow> exn + pyval" where
  "dict_get (PDict kvs) k d = Inr (case map_of kvs k of None \<Rightarrow> d | Some v \<Rightarrow> v)"
| "dict_get _ k d = Inl AttributeError"

text \<open>\<^verbatim>\<open>except requests.RequestException: return None\<close>; every other exception goes on
  to the caller.\<close>

definition except_RequestException :: "exn + 'a option \<Rightarrow> exn + 'a option" where
  "except_RequestException r =
     (case r of Inl e \<Rightarrow> (if e = RequestException then Inr None else Inl e) | Inr v \<Rightarrow> Inr v)"

section \<open>Data models\<close>

record LocationData =
  city :: pyval
  region :: pyval
  country :: pyval
  coordinates :: pyval

record WeatherData =
  city :: pyval
  region :: pyval
  country :: pyval
  temp_c :: pyval
  temp_f :: pyval
  feels_like_c :: pyval
  feels_like_f :: pyval
  humidity :: pyval
  wind_kph :: pyval
  wind_mph :: pyval
  condition :: pyval
  condition_icon :: pyval
  uv :: pyval
  last_updated :: pyval

section \<open>Services\<close>

definition get_location_from_ip :: "network \<Rightarrow> call list \<times> (exn + LocationData option)" where
  "get_location_from_ip net =
     ([HttpGet IPINFO_URL []],
      except_RequestException
        (and_then (net IPINFO_URL []) (\<lambda>response.
         and_then (raise_for_status response) (\<lambda>_.
         and_then (json response) (\<lambda>data.
         and_then (dict_get data (lit ''city'') (PStr (lit ''Unknown''))) (\<lambda>c.
         and_then (dict_get data (lit ''region'') (PStr [])) (\<lambda>r.
         and_then (dict_get data (lit ''country'') (PStr [])) (\<lambda>k.
         and_then (dict_get data (lit ''loc'') (PStr [])) (\<lambda>l.
         Inr (Some \<lparr>LocationData.city = c, region = r, country = k,
                     coordinates = l\<rparr>))))))))))"

definition demo_weather :: WeatherData where
  "demo_weather =
     \<lparr>city = PStr (lit ''Demo City''),
      region = PStr (lit ''Demo Region''),
      country = PStr (lit ''DC''),
      temp_c = PFloat 22.5,
      temp_f = PFloat 72.5,
      feels_like_c = PFloat 23.0,
      feels_like_f = PFloat 73.4,
      humidity = PInt 65,
      wind_kph = PFloat 15.0,
      wind_mph = PFloat 9.3,
      condition = PStr (lit ''Partly Cloudy''),
      condition_icon = PStr (lit ''//cdn.weatherapi.com/weather/64x64/day/116.png''),
      uv = PFloat 5.0,
      last_updated = PStr (lit ''2024-01-01 12:00'')\<rparr>"

definition weather_params :: "str \<Rightarrow> pyval \<Rightarrow> params" where
  "weather_params api_key query =
     [(lit ''key'', PStr api_key), (lit ''q'', query), (lit ''aqi'', PStr (lit ''no''))]"

text \<open>The body of the \<^verbatim>\<open>try\<close> block of \<^verbatim>\<open>get_weather\<close>; keyword arguments are evaluated
  from left to right, and the first one that raises ends the block.\<close>

definition parse_weather :: "response \<Rightarrow> exn + WeatherData option" where
  "parse_weather response =
     and_then (raise_for_status response) (\<lambda>_.
     and_then (json response) (\<lambda>data.
     and_then (getitem data (lit ''location'')) (\<lambda>location.
     and_then (getitem data (lit ''current'')) (\<lambda>current.
     and_then (getitem location (lit ''name'')) (\<lambda>v1.
     and_then (getitem location (lit ''region'')) (\<lambda>v2.
     and_then (getitem location (lit ''country'')) (\<lambda>v3.
     and_then (getitem current (lit ''temp_c'')) (\<lambda>v4.
     and_then (getitem current (lit ''temp_f'')) (\<lambda>v5.
     and_then (getitem current (lit ''feelslike_c'')) (\<lambda>v6.
     and_then (getitem current (lit ''feelslike_f'')) (\<lambda>v7.
     and_then (getitem current (lit ''humidity'')) (\<lambda>v8.
     and_then (getitem current (lit ''wind_kph'')) (\<lambda>v9.
     and_then (getitem current (lit ''wind_mph'')) (\<lambda>v10.
     and_then (and_then (getitem current (lit ''condition'')) (\<lambda>c. getitem c (lit ''text''))) (\<lambda>v11.
     and_then (and_then (getitem current (lit ''condition'')) (\<lambda>c. getitem c (lit ''icon''))) (\<lambda>v12.
     and_then (getitem current (lit ''uv'')) (\<lambda>v13.
     and_then (getitem current (lit ''last_updated'')) (\<lambda>v14.
     Inr (Some \<lparr>city = v1, region = v2, country = v3, temp_c = v4, temp_f = v5,
                 feels_like_c = v6, feels_like_f = v7, humidity = v8, wind_kph = v9,
                 wind_mph = v10, condition = v11, condition_icon = v12, uv = v13,
                 last_updated = v14\<rparr>)))))))))))))))))))"

text \<open>\<^verbatim>\<open>API_KEY\<close> is the module constant the user is told to replace; it is a parameter
  here. As shipped it equals the sentinel.\<close>

definition get_weather :: "str \<Rightarrow> network \<Rightarrow> pyval \<Rightarrow> call list \<times> (exn + WeatherData option)" where
  "get_weather api_key net query =
     (if api_key = API_KEY_SENTINEL then ([GetWeather query], Inr (Some demo_weather))
      else ([GetWeather query, HttpGet WEATHER_API_URL (weather_params api_key query)],
            except_RequestException
              (and_then (net WEATHER_API_URL (weather_params api_key query)) parse_weather)))"

section \<open>The fetch chains\<close>

text \<open>
  The two closures named \<^verbatim>\<open>task\<close>: the one of \<^verbatim>\<open>_fetch_weather_by_location\<close>, and
  the one of \<^verbatim>\<open>_search_city\<close> with the city it captured. An instance of a dataclass is
  truthy, so \<^verbatim>\<open>if location:\<close> tests for \<^verbatim>\<open>None\<close> only.
\<close>

datatype task = ByLocation | BySearch str

fun run_task :: "str \<Rightarrow> network \<Rightarrow> task \<Rightarrow> call list \<times> (exn + WeatherData option)" where
  "run_task api_key net ByLocation =
     (case get_location_from_ip net of
        (tr, Inl e) \<Rightarrow> (tr, Inl e)
      | (tr, Inr None) \<Rightarrow> (tr, Inr None)
      | (tr, Inr (Some location)) \<Rightarrow>
          (case get_weather api_key net (LocationData.city location) of
             (tr', r) \<Rightarrow> (tr @ tr', r)))"
| "run_task api_key net (BySearch name) = get_weather api_key net (PStr name)"

section \<open>The window\<close>

text \<open>
  Python's formatting, as parameters: \<open>format_0f v\<close> is \<^verbatim>\<open>format(v, '.0f')\<close>, which
  raises on a value that is not a number, and \<open>py_str v\<close> is \<^verbatim>\<open>str(v)\<close>.
\<close>

record formatter =
  format_0f :: "pyval \<Rightarrow> exn + str"
  py_str :: "pyval \<Rightarrow> str"

text \<open>The degree sign as the source writes it: the file holds the bytes
  \<^verbatim>\<open>C2 AC E2 88 9E\<close> there, which Python reads (UTF-8) as the two code points U+00AC and
  U+221E.\<close>

definition degree :: str where
  "degree = [0xAC, 0x221E]"

record WeatherCard =
  location_label :: str
  region_label :: str
  temp_label :: str
  unit_label :: str
  condition_label :: str
  feels_like_value :: str
  humidity_value :: str
  wind_value :: str
  uv_value :: str
  updated_label :: str

definition WeatherCard_create_widgets :: WeatherCard where
  "WeatherCard_create_widgets =
     \<lparr>location_label = lit ''--'',
      region_label = [],
      temp_label = lit ''--'' @ degree,
      unit_label = lit ''C'',
      condition_label = lit ''--'',
      feels_like_value = lit ''--'' @ degree @ lit ''C'',
      humidity_value = lit ''--%'',
      wind_value = lit ''-- km/h'',
      uv_value = lit ''--'',
      updated_label = []\<rparr>"

text \<open>
  \<^verbatim>\<open>WeatherCard.update_weather\<close>: the labels are set one after the other, and a format
  that raises leaves the labels set so far. The result is the card and the exception, if any.
\<close>

definition update_weather ::
  "formatter \<Rightarrow> WeatherCard \<Rightarrow> WeatherData \<Rightarrow> bool \<Rightarrow> WeatherCard \<times> exn option" where
  "update_weather fmt wcard weather celsius =
     (let c1 = wcard\<lparr>location_label := py_str fmt (WeatherData.city weather)\<rparr>;
          c2 = c1\<lparr>region_label := py_str fmt (WeatherData.region weather) @ lit '', ''
                                    @ py_str fmt (WeatherData.country weather)\<rparr>;
          rest = (\<lambda>c. (c\<lparr>condition_label := py_str fmt (condition weather),
                            humidity_value := py_str fmt (humidity weather) @ lit ''%'',
                            uv_value := py_str fmt (uv weather),
                            updated_label := lit ''Updated: '' @ py_str fmt (last_updated weather)\<rparr>,
                         None))
      in if celsius then
           (case format_0f fmt (temp_c weather) of
              Inl e \<Rightarrow> (c2, Some e)
            | Inr t \<Rightarrow>
               (let c3 = c2\<lparr>temp_label := t @ degree, unit_label := lit ''C''\<rparr>
                in (case format_0f fmt (feels_like_c weather) of
                      Inl e \<Rightarrow> (c3, Some e)
                    | Inr f \<Rightarrow>
                       (let c4 = c3\<lparr>feels_like_value := f @ degree @ lit ''C''\<rparr>
                        in (case format_0f fmt (wind_kph weather) of
                              Inl e \<Rightarrow> (c4, Some e)
                            | Inr w \<Rightarrow> rest (c4\<lparr>wind_value := w @ lit '' km/h''\<rparr>))))))
         else
           (case format_0f fmt (temp_f weather) of
              Inl e \<Rightarrow> (c2, Some e)
            | Inr t \<Rightarrow>
               (let c3 = c2\<lparr>temp_label := t @ degree, unit_label := lit ''F''\<rparr>
                in (case format_0f fmt (feels_like_f weather) of
                      Inl e \<Rightarrow> (c3, Some e)
                    | Inr f \<Rightarrow>
                       (let c4 = c3\<lparr>feels_like_value := f @ degree @ lit ''F''\<rparr>
                        in (case format_0f fmt (wind_mph weather) of
                              Inl e \<Rightarrow> (c4, Some e)
                            | Inr w \<Rightarrow> rest (c4\<lparr>wind_value := w @ lit '' mph''\<rparr>)))))))"

text \<open>The content widget that is packed; \<^verbatim>\<open>_clear_content\<close> forgets all three and each
  \<^verbatim>\<open>_show_...\<close> packs one.\<close>

datatype content = LoadingSpinner | WeatherCardShown | ErrorDisplay

text \<open>
  The state of the running program: the attributes of \<^verbatim>\<open>WeatherApp\<close> and of its widgets,
  the worker threads that were started and have not finished (with the task each runs), and
  the calls scheduled with \<^verbatim>\<open>root.after(0, ...)\<close> that the main loop has not run yet, in the
  order they were scheduled (each is \<^verbatim>\<open>_handle_weather_result\<close> with the result it holds).
\<close>

record WeatherApp =
  current_weather :: "WeatherData option"
  use_celsius :: bool
  unit_btn :: str
  search_entry :: str
  weather_card :: WeatherCard
  message_label :: str
  packed :: content
  threads :: "task list"
  after_calls :: "WeatherData option list"

definition show_loading :: "WeatherApp \<Rightarrow> WeatherApp" where
  "show_loading s = s\<lparr>packed := LoadingSpinner\<rparr>"

definition show_weather :: "WeatherApp \<Rightarrow> WeatherApp" where
  "show_weather s = s\<lparr>packed := WeatherCardShown\<rparr>"

definition show_error :: "str \<Rightarrow> WeatherApp \<Rightarrow> WeatherApp" where
  "show_error message s = s\<lparr>message_label := message, packed := ErrorDisplay\<rparr>"

text \<open>\<^verbatim>\<open>AsyncRunner.run\<close>, seen from its caller: a thread is started on the task and the
  call returns. The callback is \<^verbatim>\<open>_handle_weather_result\<close> at both call sites.\<close>

definition AsyncRunner_run :: "task \<Rightarrow> WeatherApp \<Rightarrow> WeatherApp" where
  "AsyncRunner_run t s = s\<lparr>threads := threads s @ [t]\<rparr>"

text \<open>The thread's \<^verbatim>\<open>worker\<close>, given what \<^verbatim>\<open>task()\<close> did: a task that raises ends the
  thread before \<^verbatim>\<open>root.after\<close> is reached.\<close>

definition worker :: "exn + WeatherData option \<Rightarrow> WeatherApp \<Rightarrow> WeatherApp" where
  "worker outcome s =
     (case outcome of
        Inl e \<Rightarrow> s
      | Inr result \<Rightarrow> s\<lparr>after_calls := after_calls s @ [result]\<rparr>)"

definition toggle_unit :: "formatter \<Rightarrow> WeatherApp \<Rightarrow> WeatherApp \<times> exn option" where
  "toggle_unit fmt s =
     (let s1 = s\<lparr>use_celsius := \<not> use_celsius s\<rparr>;
          s2 = s1\<lparr>unit_btn := (if \<not> use_celsius s1 then degree @ lit ''C'' else degree @ lit ''F'')\<rparr>
      in case current_weather s2 of
           None \<Rightarrow> (s2, None)
         | Some w \<Rightarrow>
             (case update_weather fmt (weather_card s2) w (use_celsius s2) of
                (c, e) \<Rightarrow> (s2\<lparr>weather_card := c\<rparr>, e)))"

definition fetch_weather_by_location :: "WeatherApp \<Rightarrow> WeatherApp" where
  "fetch_weather_by_location s = AsyncRunner_run ByLocation (show_loading s)"

text \<open>
  The code points that are whitespace for \<^verbatim>\<open>str.isspace\<close> and \<^verbatim>\<open>str.strip()\<close>: the ASCII
  controls U+0009 to U+000D and U+001C to U+001F, the space, U+0085, U+00A0, U+1680, U+2000 to
  U+200A, U+2028, U+2029, U+202F, U+205F and U+3000. \<^verbatim>\<open>strip()\<close> without an argument removes
  them from both ends.
\<close>

definition isspace :: "nat \<Rightarrow> bool" where
  "isspace c =
     (9 \<le> c \<and> c \<le> 13 \<or> 28 \<le> c \<and> c \<le> 32 \<or> c = 0x85 \<or> c = 0xA0 \<or> c = 0x1680
      \<or> 0x2000 \<le> c \<and> c \<le> 0x200A
      \<or> c = 0x2028 \<or> c = 0x2029 \<or> c = 0x202F \<or> c = 0x205F \<or> c = 0x3000)"

definition strip :: "str \<Rightarrow> str" where
  "strip s = rev (dropWhile isspace (rev (dropWhile isspace s)))"

definition search_city :: "WeatherApp \<Rightarrow> WeatherApp" where
  "search_city s =
     (let name = strip (search_entry s)
      in if name = [] then s
         else AsyncRunner_run (BySearch name) (show_loading s))"

definition FETCH_ERROR :: str where
  "FETCH_ERROR = lit ''Could not fetch weather data.'' @ [0x0A]
                 @ lit ''Check your connection or API key.''"

definition handle_weather_result ::
  "formatter \<Rightarrow> WeatherData option \<Rightarrow> WeatherApp \<Rightarrow> WeatherApp \<times> exn option" where
  "handle_weather_result fmt weather s =
     (case weather of
        Some w \<Rightarrow>
          (let s1 = s\<lparr>current_weather := Some w\<rparr>
           in case update_weather fmt (weather_card s1) w (use_celsius s1) of
                (c, Some e) \<Rightarrow> (s1\<lparr>weather_card := c\<rparr>, Some e)
              | (c, None) \<Rightarrow> (show_weather (s1\<lparr>weather_card := c\<rparr>), None))
      | None \<Rightarrow> (show_error FETCH_ERROR s, None))"

text \<open>The Retry button of \<^verbatim>\<open>ErrorDisplay\<close>: its command is the \<^verbatim>\<open>retry_callback\<close> that
  \<^verbatim>\<open>_create_ui\<close> passes, \<^verbatim>\<open>self._fetch_weather_by_location\<close>.\<close>

definition retry_callback :: "WeatherApp \<Rightarrow> WeatherApp" where
  "retry_callback s = fetch_weather_by_location s"

text \<open>\<^verbatim>\<open>WeatherApp.__init__\<close>: the attributes, \<^verbatim>\<open>_create_ui\<close> (which ends with
  \<^verbatim>\<open>_show_loading\<close>), then the first fetch by location.\<close>

definition init :: WeatherApp where
  "init = fetch_weather_by_location
     \<lparr>current_weather = None,
      use_celsius = True,
      unit_btn = degree @ lit ''F'',
      search_entry = [],
      weather_card = WeatherCard_create_widgets,
      message_label = lit ''Unable to fetch weather data'',
      packed = LoadingSpinner,
      threads = [],
      after_calls = []\<rparr>"

section \<open>The main loop and the threads, one event at a time\<close>

text \<open>
  Tk runs a callback to its end before the next one, and reports an exception of a callback
  without undoing what the callback did. A thread finishes at any moment; \<open>ThreadDone i net\<close>
  is the \<open>i\<close>-th running thread finishing its task on the network \<open>net\<close>. \<open>AfterCall\<close>
  is the main loop running the oldest scheduled call.
\<close>

datatype event =
    TypeText str
  | PressSearch
  | PressLocation
  | PressUnit
  | PressRetry
  | ThreadDone nat network
  | AfterCall

fun step :: "str \<Rightarrow> formatter \<Rightarrow> WeatherApp \<Rightarrow> event \<Rightarrow> WeatherApp" where
  "step api_key fmt s (TypeText t) = s\<lparr>search_entry := t\<rparr>"
| "step api_key fmt s PressSearch = search_city s"
| "step api_key fmt s PressLocation = fetch_weather_by_location s"
| "step api_key fmt s PressUnit = fst (toggle_unit fmt s)"
| "step api_key fmt s PressRetry =
     (if packed s = ErrorDisplay then retry_callback s else s)"
| "step api_key fmt s (ThreadDone i net) =
     (if i < length (threads s)
      then worker (snd (run_task api_key net (threads s ! i)))
             (s\<lparr>threads := take i (threads s) @ drop (Suc i) (threads s)\<rparr>)
      else s)"
| "step api_key fmt s AfterCall =
     (case after_calls s of
        [] \<Rightarrow> s
      | r # rs \<Rightarrow> fst (handle_weather_result fmt r (s\<lparr>after_calls := rs\<rparr>)))"

definition run :: "str \<Rightarrow> formatter \<Rightarrow> WeatherApp \<Rightarrow> event list \<Rightarrow> WeatherApp" where
  "run api_key fmt s evs = foldl (step api_key fmt) s evs"

section \<open>What the properties are stated with\<close>

text \<open>
  The view state of the specification, read off the window: the packed content widget, with
  the stored reading and the unit preference when the card is shown, and the message when the
  error display is shown. The card is packed by \<^verbatim>\<open>_handle_weather_result\<close> only, after the
  reading is stored (lemma \<open>run_card_has_reading\<close> below).
\<close>

datatype ViewState = Loading | Showing "WeatherData option" bool | Failed str

definition view_state :: "WeatherApp \<Rightarrow> ViewState" where
  "view_state s =
     (case packed s of
        LoadingSpinner \<Rightarrow> Loading
      | WeatherCardShown \<Rightarrow> Showing (current_weather s) (use_celsius s)
      | ErrorDisplay \<Rightarrow> Failed (message_label s))"

text \<open>The queries \<^verbatim>\<open>get_weather\<close> was called with, and the parameters of the requests sent
  to the weather provider, in a trace.\<close>

fun weather_calls :: "call list \<Rightarrow> pyval list" where
  "weather_calls [] = []"
| "weather_calls (GetWeather q # tr) = q # weather_calls tr"
| "weather_calls (HttpGet u p # tr) = weather_calls tr"

fun weather_requests :: "call list \<Rightarrow> params list" where
  "weather_requests [] = []"
| "weather_requests (GetWeather q # tr) = weather_requests tr"
| "weather_requests (HttpGet u p # tr) =
     (if u = WEATHER_API_URL then p # weather_requests tr else weather_requests tr)"






section \<open>Concrete networks, a formatter and states for the examples\<close>

text \<open>A provider that answers every request with status 200 and the JSON object \<^verbatim>\<open>{}\<close>.\<close>

definition empty_object :: network where
  "empty_object url ps = Inr \<lparr>status_code = 200, json = Inr (PDict [])\<rparr>"

text \<open>No connection: every request raises.\<close>

definition offline :: network where
  "offline url ps = Inl RequestException"








definition a_key :: str where
  "a_key = lit ''0123456789abcdef''"

text \<open>
  An instance of the formatting parameters for the examples. It raises where Python does (a
  string under \<^verbatim>\<open>'.0f'\<close> is a \<^verbatim>\<open>ValueError\<close>, \<^verbatim>\<open>None\<close>, a list or a dict a
  \<^verbatim>\<open>TypeError\<close>) and prints a number rounded half to even; \<open>py_str\<close> is exact on strings
  and integers and prints a float with one decimal, which is what the examples hold.
\<close>

fun digits :: "nat \<Rightarrow> str" where
  "digits n =
     (if n < 10 then [48 + n]
      else digits (n div 10) @ [48 + n mod 10])"

definition str_int :: "int \<Rightarrow> str" where
  "str_int n = (if n < 0 then (lit ''-'') else []) @ digits (nat \<bar>n\<bar>)"

definition round_half_even :: "real \<Rightarrow> int" where
  "round_half_even x =
     (let f = \<lfloor>x\<rfloor>; d = x - of_int f
      in if d < 1 / 2 then f else if 1 / 2 < d then f + 1 else if even f then f else f + 1)"

definition example_format_0f :: "pyval \<Rightarrow> exn + str" where
  "example_format_0f v =
     (case v of
        PFloat x \<Rightarrow> Inr ((if x < 0 then (lit ''-'') else []) @ digits (nat \<bar>round_half_even x\<bar>))
      | PInt n \<Rightarrow> Inr (str_int n)
      | PBool b \<Rightarrow> Inr (if b then (lit ''1'') else (lit ''0''))
      | PStr s \<Rightarrow> Inl ValueError
      | _ \<Rightarrow> Inl TypeError)"

definition example_py_str :: "pyval \<Rightarrow> str" where
  "example_py_str v =
     (case v of
        PStr s \<Rightarrow> s
      | PInt n \<Rightarrow> str_int n
      | PBool b \<Rightarrow> (if b then (lit ''True'') else (lit ''False''))
      | PNone \<Rightarrow> (lit ''None'')
      | PFloat x \<Rightarrow> (if x < 0 then (lit ''-'') else []) @ digits (nat \<lfloor>\<bar>x\<bar>\<rfloor>) @ lit ''.''
                      @ digits (nat \<lfloor>\<bar>x\<bar> * 10\<rfloor> mod 10)
      | PList xs \<Rightarrow> (lit ''[...]'')
      | PDict kvs \<Rightarrow> (lit ''{...}''))"

definition example_formatter :: formatter where
  "example_formatter = \<lparr>format_0f = example_format_0f, py_str = example_py_str\<rparr>"

text \<open>The window after a search for Paris has failed: the first fetch by location fails, the
  user searches for Paris, and that fetch fails too.\<close>

definition failed_search :: WeatherApp where
  "failed_search =
     run a_key example_formatter init
       [ThreadDone 0 offline, AfterCall,
        TypeText (lit ''Paris''), PressSearch, ThreadDone 0 offline, AfterCall]"


section \<open>Literals\<close>

lemma lit_eq_iff [simp]: "(lit a = lit b) = (a = b)"
  by (simp add: lit_def inj_map_eq_map inj_on_def)

lemma lit_eq_Nil [simp]: "(lit a = []) = (a = [])" "([] = lit a) = (a = [])"
  by (auto simp add: lit_def)

section \<open>The services\<close>

lemma fst_get_location_from_ip: "fst (get_location_from_ip net) = [HttpGet IPINFO_URL []]"
  by (simp add: get_location_from_ip_def)

lemma fst_get_weather:
  "fst (get_weather api_key net q) =
     (if api_key = API_KEY_SENTINEL then [GetWeather q]
      else [GetWeather q, HttpGet WEATHER_API_URL (weather_params api_key q)])"
  by (simp add: get_weather_def)

lemma IPINFO_not_WEATHER: "IPINFO_URL \<noteq> WEATHER_API_URL"
  by (simp add: IPINFO_URL_def WEATHER_API_URL_def)

lemma a_key_not_sentinel: "a_key \<noteq> API_KEY_SENTINEL"
  by (simp add: a_key_def API_KEY_SENTINEL_def)

text \<open>What the \<^verbatim>\<open>except\<close> clause does catch: a request that raises, and a 4xx or 5xx
  status.\<close>

lemma get_weather_transport_failure:
  assumes "api_key \<noteq> API_KEY_SENTINEL"
    and "net WEATHER_API_URL (weather_params api_key q) = Inl RequestException"
  shows "snd (get_weather api_key net q) = Inr None"
  using assms by (simp add: get_weather_def and_then_def except_RequestException_def)

lemma get_weather_http_error:
  assumes "api_key \<noteq> API_KEY_SENTINEL"
    and "net WEATHER_API_URL (weather_params api_key q) = Inr r"
    and "400 \<le> status_code r" and "status_code r < 600"
  shows "snd (get_weather api_key net q) = Inr None"
  using assms
  by (simp add: get_weather_def parse_weather_def and_then_def raise_for_status_def
        except_RequestException_def)

lemma get_weather_undecodable_body:
  assumes "api_key \<noteq> API_KEY_SENTINEL"
    and "net WEATHER_API_URL (weather_params api_key q) = Inr r"
    and "json r = Inl e"
  shows "snd (get_weather api_key net q) =
           (if 400 \<le> status_code r \<and> status_code r < 600 \<or> e = RequestException
            then Inr None else Inl e)"
  using assms
  by (simp add: get_weather_def parse_weather_def and_then_def raise_for_status_def
        except_RequestException_def)

lemma get_location_transport_failure:
  assumes "net IPINFO_URL [] = Inl RequestException"
  shows "snd (get_location_from_ip net) = Inr None"
  using assms by (simp add: get_location_from_ip_def and_then_def except_RequestException_def)

text \<open>
  \<^bold>\<open>C1\<close>. The claim: \<^verbatim>\<open>get_weather\<close> returns \<^verbatim>\<open>None\<close> on every network or parse failure,
  a 2xx response without a required field included, and never raises. The code catches
  \<^verbatim>\<open>requests.RequestException\<close> only. With a configured key and a provider that answers
  200 with the JSON object \<^verbatim>\<open>{}\<close>, \<^verbatim>\<open>data["location"]\<close> raises \<^verbatim>\<open>KeyError\<close>, and the
  call raises it to the task that called it.
\<close>

theorem get_weather_missing_field_raises:
  "get_weather a_key empty_object (PStr (lit ''Paris''))
     = ([GetWeather (PStr (lit ''Paris'')),
         HttpGet WEATHER_API_URL (weather_params a_key (PStr (lit ''Paris'')))],
        Inl KeyError)"
  by (simp add: get_weather_def empty_object_def a_key_not_sentinel parse_weather_def
       and_then_def raise_for_status_def except_RequestException_def)

text \<open>
  \<^bold>\<open>C8\<close>. With the sentinel as the key, \<^verbatim>\<open>get_weather\<close> returns the same demo reading for
  every query and every network, its city is \<^verbatim>\<open>"Demo City"\<close>, and it sends no request: the
  branch is taken first, before the \<^verbatim>\<open>try\<close> block.
\<close>

theorem get_weather_demo_mode:
  "get_weather API_KEY_SENTINEL net query = ([GetWeather query], Inr (Some demo_weather))
   \<and> weather_requests (fst (get_weather API_KEY_SENTINEL net query)) = []
   \<and> WeatherData.city demo_weather = PStr (lit ''Demo City'')"
  by (simp add: get_weather_def demo_weather_def)

section \<open>The fetch chain by location\<close>

lemma run_task_ByLocation:
  "run_task api_key net ByLocation =
     (case snd (get_location_from_ip net) of
        Inl e \<Rightarrow> ([HttpGet IPINFO_URL []], Inl e)
      | Inr None \<Rightarrow> ([HttpGet IPINFO_URL []], Inr None)
      | Inr (Some location) \<Rightarrow>
          (HttpGet IPINFO_URL [] # fst (get_weather api_key net (LocationData.city location)),
           snd (get_weather api_key net (LocationData.city location))))"
proof -
  obtain tr r where g: "get_location_from_ip net = (tr, r)"
    by (cases "get_location_from_ip net")
  with fst_get_location_from_ip [of net] have tr: "tr = [HttpGet IPINFO_URL []]"
    by simp
  show ?thesis
    by (simp add: g tr split: sum.splits option.splits prod.splits)
qed

text \<open>
  \<^bold>\<open>C4\<close>. In the chain by location, the result is \<^verbatim>\<open>None\<close> when the location service
  returned \<^verbatim>\<open>None\<close>, and the result of \<^verbatim>\<open>get_weather\<close> on the returned city when it
  returned a location. \<^verbatim>\<open>get_weather\<close> is called exactly once, with that city, in the second
  case and not at all otherwise; the weather provider receives a request in the second case
  only (and only with a configured key).
\<close>

theorem by_location_chain:
  "snd (run_task api_key net ByLocation) =
     (case snd (get_location_from_ip net) of
        Inl e \<Rightarrow> Inl e
      | Inr None \<Rightarrow> Inr None
      | Inr (Some location) \<Rightarrow> snd (get_weather api_key net (LocationData.city location)))
   \<and> weather_calls (fst (run_task api_key net ByLocation)) =
     (case snd (get_location_from_ip net) of
        Inl e \<Rightarrow> []
      | Inr None \<Rightarrow> []
      | Inr (Some location) \<Rightarrow> [LocationData.city location])
   \<and> weather_requests (fst (run_task api_key net ByLocation)) =
     (case snd (get_location_from_ip net) of
        Inl e \<Rightarrow> []
      | Inr None \<Rightarrow> []
      | Inr (Some location) \<Rightarrow>
          (if api_key = API_KEY_SENTINEL then []
           else [weather_params api_key (LocationData.city location)]))"
  by (simp add: run_task_ByLocation fst_get_weather IPINFO_not_WEATHER
        del: run_task.simps split: sum.splits option.splits)

section \<open>The window\<close>

text \<open>
  \<^bold>\<open>C6\<close>. When the result handed to \<^verbatim>\<open>_handle_weather_result\<close> is \<^verbatim>\<open>None\<close>, the error
  display is shown with the fixed message, and the stored reading, the card and the unit
  preference are what they were.
\<close>

theorem failure_keeps_reading:
  "view_state (fst (handle_weather_result fmt None s)) = Failed FETCH_ERROR
   \<and> current_weather (fst (handle_weather_result fmt None s)) = current_weather s
   \<and> weather_card (fst (handle_weather_result fmt None s)) = weather_card s
   \<and> use_celsius (fst (handle_weather_result fmt None s)) = use_celsius s
   \<and> snd (handle_weather_result fmt None s) = None"
  by (simp add: handle_weather_result_def show_error_def view_state_def)

lemma toggle_unit_fields:
  "use_celsius (fst (toggle_unit fmt s)) = (\<not> use_celsius s)
   \<and> current_weather (fst (toggle_unit fmt s)) = current_weather s
   \<and> packed (fst (toggle_unit fmt s)) = packed s
   \<and> message_label (fst (toggle_unit fmt s)) = message_label s
   \<and> threads (fst (toggle_unit fmt s)) = threads s
   \<and> after_calls (fst (toggle_unit fmt s)) = after_calls s
   \<and> search_entry (fst (toggle_unit fmt s)) = search_entry s"
  by (simp add: toggle_unit_def Let_def split: option.splits prod.splits)

text \<open>
  \<^bold>\<open>C9\<close>. In every state, one press of the unit button flips the unit preference, and two
  presses give back the unit preference, the stored reading and the view state.
\<close>

theorem toggle_unit_twice:
  "use_celsius (step api_key fmt s PressUnit) = (\<not> use_celsius s)
   \<and> use_celsius (run api_key fmt s [PressUnit, PressUnit]) = use_celsius s
   \<and> current_weather (run api_key fmt s [PressUnit, PressUnit]) = current_weather s
   \<and> view_state (run api_key fmt s [PressUnit, PressUnit]) = view_state s"
  by (simp add: run_def toggle_unit_fields view_state_def split: content.splits)

text \<open>
  \<^bold>\<open>C10\<close>. \<^verbatim>\<open>AsyncRunner.run\<close> on a task starts one thread on it and schedules nothing itself.
  When that thread ends, a task that returned \<open>r\<close> (which may be \<^verbatim>\<open>None\<close>) has put exactly
  one call in the queue of the main loop, with \<open>r\<close>, and a task that raised has put none: the
  state is then the state from before the run, error display not shown, view state as it was. A
  thread that has ended is no longer among the threads, so it schedules nothing more, and the
  main loop takes a scheduled call out of the queue when it runs the callback on its value. The
  same holds for the end of any running thread, in any state.
\<close>

theorem async_run_schedules_once_or_never:
  "threads (AsyncRunner_run t s) = threads s @ [t]
   \<and> after_calls (AsyncRunner_run t s) = after_calls s
   \<and> view_state (AsyncRunner_run t s) = view_state s
   \<and> step api_key fmt (AsyncRunner_run t s) (ThreadDone (length (threads s)) net) =
       (case snd (run_task api_key net t) of
          Inl e \<Rightarrow> s
        | Inr r \<Rightarrow> s\<lparr>after_calls := after_calls s @ [r]\<rparr>)
   \<and> view_state (step api_key fmt (AsyncRunner_run t s) (ThreadDone (length (threads s)) net))
       = view_state s
   \<and> step api_key fmt (s\<lparr>after_calls := r # rs\<rparr>) AfterCall
       = fst (handle_weather_result fmt r (s\<lparr>after_calls := rs\<rparr>))
   \<and> after_calls (step api_key fmt s (ThreadDone i net)) =
       after_calls s @
         (if i < length (threads s)
          then (case snd (run_task api_key net (threads s ! i)) of Inl e \<Rightarrow> [] | Inr r \<Rightarrow> [r])
          else [])
   \<and> threads (step api_key fmt s (ThreadDone i net)) =
       (if i < length (threads s) then take i (threads s) @ drop (Suc i) (threads s)
        else threads s)
   \<and> view_state (step api_key fmt s (ThreadDone i net)) = view_state s
   \<and> current_weather (step api_key fmt s (ThreadDone i net)) = current_weather s"
  by (simp add: AsyncRunner_run_def worker_def view_state_def
        split: sum.splits content.splits)

lemma strip_whitespace:
  assumes "\<forall>c\<in>set t. isspace c"
  shows "strip t = []"
proof -
  from assms have d: "dropWhile isspace t = []"
    by (simp only: dropWhile_eq_Nil_conv)
  show ?thesis
    unfolding strip_def d by simp
qed

text \<open>
  \<^bold>\<open>C7\<close>. When the text of the search entry is empty or holds whitespace only (any of the
  code points that \<^verbatim>\<open>str.strip()\<close> removes, the Unicode spaces among them),
  \<^verbatim>\<open>_search_city\<close> returns before \<^verbatim>\<open>_show_loading\<close>: the whole state is unchanged, so the
  view state, the reading and the unit preference are, and no thread is started.
\<close>

theorem blank_search_is_noop:
  assumes "\<forall>c\<in>set (search_entry s). isspace c"
  shows "search_city s = s \<and> step api_key fmt s PressSearch = s"
  using assms by (simp add: search_city_def strip_whitespace)

theorem blank_search_is_noop_witness:
  "list_all isspace (search_entry (init\<lparr>search_entry := [0x20, 0x3000, 0xA0, 0x09]\<rparr>))
   \<and> search_city (init\<lparr>search_entry := [0x20, 0x3000, 0xA0, 0x09]\<rparr>)
       = init\<lparr>search_entry := [0x20, 0x3000, 0xA0, 0x09]\<rparr>
   \<and> step a_key example_formatter (init\<lparr>search_entry := [0x20, 0x3000, 0xA0, 0x09]\<rparr>)
         PressSearch
       = init\<lparr>search_entry := [0x20, 0x3000, 0xA0, 0x09]\<rparr>"
proof -
  have h: "\<forall>c\<in>set (search_entry (init\<lparr>search_entry := [0x20, 0x3000, 0xA0, 0x09]\<rparr>)).
             isspace c"
    by (simp add: isspace_def)
  from blank_search_is_noop [OF h, of a_key example_formatter] h show ?thesis
    by (simp add: list_all_iff)
qed

text \<open>Any other text starts the search chain on the stripped text, under the loading
  spinner.\<close>

lemma strip_not_whitespace:
  assumes "c \<in> set t" and "\<not> isspace c"
  shows "strip t \<noteq> []"
proof -
  from assms have d: "dropWhile isspace t \<noteq> []"
    by (auto simp add: dropWhile_eq_Nil_conv)
  then have "\<not> isspace (hd (dropWhile isspace t))"
    by (rule hd_dropWhile)
  moreover from d have "hd (dropWhile isspace t) \<in> set (rev (dropWhile isspace t))"
    by simp
  ultimately have "dropWhile isspace (rev (dropWhile isspace t)) \<noteq> []"
    by (auto simp add: dropWhile_eq_Nil_conv)
  then show ?thesis
    by (simp add: strip_def)
qed

lemma other_search_dispatches:
  assumes "c \<in> set (search_entry s)" and "\<not> isspace c"
  shows "view_state (search_city s) = Loading
         \<and> threads (search_city s) = threads s @ [BySearch (strip (search_entry s))]"
  using strip_not_whitespace [OF assms]
  by (simp add: search_city_def Let_def AsyncRunner_run_def show_loading_def view_state_def)

section \<open>The callback and the reading\<close>
















section \<open>The examples, evaluated\<close>

lemma init_fields:
  "threads init = [ByLocation] \<and> after_calls init = [] \<and> use_celsius init
   \<and> packed init = LoadingSpinner \<and> current_weather init = None \<and> search_entry init = []
   \<and> weather_card init = WeatherCard_create_widgets"
  by (simp add: init_def fetch_weather_by_location_def AsyncRunner_run_def show_loading_def)









lemma digits_18: "digits 18 = lit ''18''"
  by (simp add: lit_def)

lemma digits_11: "digits 11 = lit ''11''"
  by (simp add: lit_def)



lemma offline_search: "snd (run_task a_key offline (BySearch name)) = Inr None"
  by (simp add: get_weather_def a_key_not_sentinel offline_def and_then_def
        except_RequestException_def)

lemma offline_by_location: "snd (run_task a_key offline ByLocation) = Inr None"
  by (simp add: run_task_ByLocation get_location_from_ip_def offline_def and_then_def
        except_RequestException_def del: run_task.simps)

section \<open>A successful fetch\<close>





section \<open>Two fetches in flight\<close>





section \<open>Retry\<close>

lemma failed_search_fields:
  "packed failed_search = ErrorDisplay \<and> message_label failed_search = FETCH_ERROR
   \<and> threads failed_search = [] \<and> after_calls failed_search = []
   \<and> search_entry failed_search = lit ''Paris''"
  by (simp add: failed_search_def run_def init_def fetch_weather_by_location_def
        AsyncRunner_run_def show_loading_def search_city_def strip_def isspace_def lit_def Let_def
        worker_def offline_search offline_by_location handle_weather_result_def show_error_def
        del: run_task.simps)

text \<open>
  \<^bold>\<open>C2\<close>, as stated, fails: the claim has Retry run the search chain again when the fetch
  that failed was a search. The fetch by location of the launch fails; the user searches for
  Paris, which starts the search chain on Paris, and it fails; the error display is shown and no
  thread runs. Retry then starts the chain by location, not the search for Paris.
\<close>

theorem retry_after_failed_search_goes_by_location:
  "threads (run a_key example_formatter init
              [ThreadDone 0 offline, AfterCall, TypeText (lit ''Paris''), PressSearch])
     = [BySearch (lit ''Paris'')]
   \<and> view_state failed_search = Failed FETCH_ERROR
   \<and> threads failed_search = []
   \<and> view_state (step a_key example_formatter failed_search PressRetry) = Loading
   \<and> threads (step a_key example_formatter failed_search PressRetry) = [ByLocation]
   \<and> threads (step a_key example_formatter failed_search PressRetry) \<noteq> [BySearch (lit ''Paris'')]"
  by (simp add: failed_search_fields view_state_def retry_callback_def
        fetch_weather_by_location_def AsyncRunner_run_def show_loading_def
        run_def init_def search_city_def strip_def isspace_def lit_def Let_def
        worker_def offline_by_location handle_weather_result_def show_error_def
        del: run_task.simps)

text \<open>
  \<^bold>\<open>C2\<close>, amended: whenever the error display is shown, Retry shows the loading spinner and
  starts the chain by location, whichever chain had failed; the reading and the unit
  preference are unchanged. The command of the button is \<^verbatim>\<open>_fetch_weather_by_location\<close>,
  and nothing in the window records which chain ran last.
\<close>

theorem retry_goes_by_location:
  assumes "view_state s = Failed m"
  shows "view_state (step api_key fmt s PressRetry) = Loading
         \<and> threads (step api_key fmt s PressRetry) = threads s @ [ByLocation]
         \<and> current_weather (step api_key fmt s PressRetry) = current_weather s
         \<and> use_celsius (step api_key fmt s PressRetry) = use_celsius s"
proof -
  from assms have "packed s = ErrorDisplay"
    by (simp add: view_state_def split: content.splits)
  then show ?thesis
    by (simp add: retry_callback_def fetch_weather_by_location_def AsyncRunner_run_def
          show_loading_def view_state_def)
qed

theorem retry_goes_by_location_witness:
  "view_state failed_search = Failed FETCH_ERROR
   \<and> view_state (step a_key example_formatter failed_search PressRetry) = Loading
   \<and> threads (step a_key example_formatter failed_search PressRetry)
       = threads failed_search @ [ByLocation]
   \<and> current_weather (step a_key example_formatter failed_search PressRetry)
       = current_weather failed_search
   \<and> use_celsius (step a_key example_formatter failed_search PressRetry)
       = use_celsius failed_search"
proof -
  have h: "view_state failed_search = Failed FETCH_ERROR"
    by (simp add: view_state_def failed_search_fields)
  from retry_goes_by_location [OF h, of a_key example_formatter] h show ?thesis
    by simp
qed

section \<open>An invariant of the window\<close>

text \<open>From the launch on, the card is shown only when a reading is stored.\<close>

lemma step_card_has_reading:
  assumes "packed s = WeatherCardShown \<longrightarrow> current_weather s \<noteq> None"
  shows "packed (step api_key fmt s ev) = WeatherCardShown
           \<longrightarrow> current_weather (step api_key fmt s ev) \<noteq> None"
proof (cases ev)
  case PressUnit
  then show ?thesis using assms by (simp add: toggle_unit_fields)
next
  case AfterCall
  then show ?thesis using assms
    by (auto simp add: handle_weather_result_def show_weather_def show_error_def Let_def
          split: list.splits option.splits prod.splits)
qed (use assms in \<open>auto simp add: search_city_def fetch_weather_by_location_def
       retry_callback_def AsyncRunner_run_def show_loading_def worker_def Let_def
       split: sum.splits\<close>)

lemma run_card_has_reading:
  "packed (run api_key fmt init evs) = WeatherCardShown
     \<longrightarrow> current_weather (run api_key fmt init evs) \<noteq> None"
proof (induction evs rule: rev_induct)
  case Nil
  then show ?case by (simp add: run_def init_fields)
next
  case (snoc ev evs)
  from step_card_has_reading [OF snoc.IH, of api_key fmt ev] show ?case
    by (simp add: run_def)
qed

section \<open>What a missing field does to the window\<close>

text \<open>The provider that answers 200 with \<^verbatim>\<open>{}\<close>, at the window: the search for
  Paris is started, its thread ends on the \<^verbatim>\<open>KeyError\<close>, nothing is scheduled, and the
  loading spinner stays, however often the main loop turns.\<close>

lemma missing_field_strands_loading:
  "view_state (run a_key example_formatter failed_search
                 ([PressSearch, ThreadDone 0 empty_object] @ replicate n AfterCall)) = Loading
   \<and> threads (run a_key example_formatter failed_search
                 ([PressSearch, ThreadDone 0 empty_object] @ replicate n AfterCall)) = []
   \<and> after_calls (run a_key example_formatter failed_search
                 ([PressSearch, ThreadDone 0 empty_object] @ replicate n AfterCall)) = []"
proof -
  let ?s = "run a_key example_formatter failed_search [PressSearch, ThreadDone 0 empty_object]"
  have k: "snd (run_task a_key empty_object (BySearch name)) = Inl KeyError" for name
    by (simp add: get_weather_def empty_object_def a_key_not_sentinel parse_weather_def
          and_then_def raise_for_status_def except_RequestException_def)
  have s: "packed ?s = LoadingSpinner \<and> threads ?s = [] \<and> after_calls ?s = []"
    by (simp add: run_def failed_search_fields search_city_def strip_def isspace_def lit_def Let_def
          AsyncRunner_run_def show_loading_def worker_def k del: run_task.simps)
  have idle: "foldl (step a_key example_formatter) t (replicate n AfterCall) = t"
    if "after_calls t = []" for t
    using that by (induction n) simp_all
  have "run a_key example_formatter failed_search
          ([PressSearch, ThreadDone 0 empty_object] @ replicate n AfterCall) = ?s"
    using idle [of ?s] s by (simp add: run_def)
  with s show ?thesis
    by (simp add: view_state_def)
qed

end
